theory Spec2Isabelle
  imports Complex_Main
begin

section \<open>Python values, documents and errors\<close>

text \<open>
  The script \<^verbatim>\<open>L4.py\<close> exposes two retrieval functions as tools of a chat model.
  Both read from a MongoDB database; one of them first asks a hosted embedding model
  for a vector. The script does no arithmetic on the vectors, so their components are
  modelled as reals that are only passed along.

  A stored value is one of the scalar Python values below, or a vector of numbers
  (the \<^verbatim>\<open>embedding\<close> field of a chunk). Nested documents and arrays of
  non-numbers are not modelled.
\<close>

datatype pyval =
    PNone
  | PBool bool
  | PInt int
  | PFloat real
  | PStr string
  | PVec "real list"

text \<open>
  The implicit raises of the source: \<^verbatim>\<open>str.join\<close> on a non-string item
  (TypeError), \<^verbatim>\<open>d[k]\<close> on a missing key (KeyError) and \<^verbatim>\<open>xs[0]\<close> on an
  empty list (IndexError). Exceptions of the network clients themselves (connectivity,
  authentication) are not modelled: the external services below always answer.
\<close>

datatype py_error = TypeError | KeyError | IndexError

text \<open>A document is a Python dict with string keys, kept as an association list.\<close>

type_synonym document = "(string \<times> pyval) list"

definition dict_get :: "document \<Rightarrow> string \<Rightarrow> pyval" where
  \<comment> \<open>\<^verbatim>\<open>d.get(k)\<close>: the value, or None when the key is missing\<close>
  "dict_get d k = (case map_of d k of None \<Rightarrow> PNone | Some v \<Rightarrow> v)"

definition dict_item :: "document \<Rightarrow> string \<Rightarrow> py_error + pyval" where
  \<comment> \<open>\<^verbatim>\<open>d[k]\<close>: raises KeyError when the key is missing\<close>
  "dict_item d k = (case map_of d k of None \<Rightarrow> Inl KeyError | Some v \<Rightarrow> Inr v)"

definition truthy :: "document option \<Rightarrow> bool" where
  \<comment> \<open>\<^verbatim>\<open>if document:\<close> for a value that is None or a dict: an empty dict is falsy\<close>
  "truthy r = (case r of None \<Rightarrow> False | Some d \<Rightarrow> d \<noteq> [])"

fun join_strs :: "string \<Rightarrow> string list \<Rightarrow> string" where
  "join_strs sep [] = []"
| "join_strs sep [s] = s"
| "join_strs sep (s # t # ss) = s @ sep @ join_strs sep (t # ss)"

fun as_strs :: "pyval list \<Rightarrow> string list option" where
  "as_strs [] = Some []"
| "as_strs (PStr s # vs) = (case as_strs vs of None \<Rightarrow> None | Some ss \<Rightarrow> Some (s # ss))"
| "as_strs (_ # vs) = None"

definition str_join :: "string \<Rightarrow> pyval list \<Rightarrow> py_error + string" where
  \<comment> \<open>\<^verbatim>\<open>sep.join(items)\<close>: raises TypeError unless every item is a str\<close>
  "str_join sep items =
     (case as_strs items of None \<Rightarrow> Inl TypeError | Some ss \<Rightarrow> Inr (join_strs sep ss))"

section \<open>Queries, projections and aggregation pipelines\<close>

datatype proj_spec =
    Exclude         \<comment> \<open>\<^verbatim>\<open>field: 0\<close>\<close>
  | Include         \<comment> \<open>\<^verbatim>\<open>field: 1\<close>\<close>
  | Meta string     \<comment> \<open>\<^verbatim>\<open>field: {"$meta": name}\<close>\<close>

type_synonym projection = "(string \<times> proj_spec) list"

record vector_search =
  vs_index :: string
  vs_path :: string
  vs_queryVector :: "real list"
  vs_numCandidates :: nat
  vs_limit :: nat

datatype stage =
    VectorSearch vector_search      \<comment> \<open>\<^verbatim>\<open>{"$vectorSearch": {...}}\<close>\<close>
  | Project projection              \<comment> \<open>\<^verbatim>\<open>{"$project": {...}}\<close>\<close>

type_synonym collection = "nat \<times> string \<times> string"
  \<comment> \<open>a collection handle: the client it belongs to, database name, collection name\<close>

section \<open>The outside world\<close>

record tool_call =
  tc_name :: string
  tc_args :: "(string \<times> string) list"

record chat_request =
  cr_model :: string
  cr_temperature :: int
  cr_api_key :: string
  cr_tools :: "string list"                     \<comment> \<open>names of the bound tools\<close>
  cr_template :: string                         \<comment> \<open>the prompt text, with its variable\<close>
  cr_placeholder :: string                      \<comment> \<open>the \<^verbatim>\<open>MessagesPlaceholder\<close> variable\<close>
  cr_partial :: "(string \<times> string) list"        \<comment> \<open>variables filled by \<^verbatim>\<open>partial\<close>\<close>
  cr_messages :: "string list"                  \<comment> \<open>what \<^verbatim>\<open>invoke\<close> receives\<close>

datatype printed = Text string | ToolCalls "tool_call list"

text \<open>Every call that leaves the process is recorded, in order.\<close>

datatype event =
    MongoClient string                                   \<comment> \<open>\<^verbatim>\<open>MongoClient(uri)\<close>\<close>
  | VoyageEmbed string string string string              \<comment> \<open>api key, text, model, input type\<close>
  | Aggregate nat string string "stage list"             \<comment> \<open>client, database, collection, pipeline\<close>
  | FindOne nat string string document projection        \<comment> \<open>client, database, collection, query, projection\<close>
  | ChatInvoke chat_request
  | Print printed

record world =
  store :: "string \<Rightarrow> string \<Rightarrow> document list"
    \<comment> \<open>database name and collection name to the stored documents, in natural order;
        a collection that does not exist reads as empty\<close>
  trace :: "event list"

text \<open>
  The configuration module \<^verbatim>\<open>key_param\<close> and the three hosted services are
  parameters: the embedding endpoint, the nearest-neighbour ranking of the vector index
  (which returns candidate documents with their similarity scores, best first) and the
  chat model's tool-call decision.
\<close>

record env =
  mongodb_uri :: string
  voyage_api_key :: string
  openai_api_key :: string
  voyage_embed :: "string \<Rightarrow> string \<Rightarrow> string \<Rightarrow> real list list"
    \<comment> \<open>text, model, input type to the \<^verbatim>\<open>embeddings\<close> list of the response\<close>
  vector_rank :: "string \<Rightarrow> string \<Rightarrow> real list \<Rightarrow> nat \<Rightarrow> document list \<Rightarrow> (document \<times> real) list"
    \<comment> \<open>index, path, query vector, numCandidates, collection to scored candidates\<close>
  chat_model :: "chat_request \<Rightarrow> tool_call list"

definition emit :: "event \<Rightarrow> world \<Rightarrow> world" where
  "emit e w = w\<lparr>trace := trace w @ [e]\<rparr>"

subsection \<open>The database engine\<close>

text \<open>
  An inclusion projection keeps the fields marked \<open>Include\<close>, keeps \<^verbatim>\<open>_id\<close> unless
  it is marked \<open>Exclude\<close>, and adds each \<open>Meta\<close> field whose metadata is available.
\<close>

definition keeps :: "projection \<Rightarrow> string \<Rightarrow> bool" where
  "keeps p k = (map_of p k = Some Include \<or> (k = ''_id'' \<and> map_of p k = None))"

fun meta_fields :: "projection \<Rightarrow> (string \<Rightarrow> pyval option) \<Rightarrow> document" where
  "meta_fields [] m = []"
| "meta_fields ((k, Meta n) # p) m =
     (case m n of None \<Rightarrow> meta_fields p m | Some v \<Rightarrow> (k, v) # meta_fields p m)"
| "meta_fields (_ # p) m = meta_fields p m"

definition project :: "projection \<Rightarrow> (string \<Rightarrow> pyval option) \<Rightarrow> document \<Rightarrow> document" where
  "project p m d = filter (\<lambda>kv. keeps p (fst kv)) d @ meta_fields p m"

definition search_meta :: "real option \<Rightarrow> string \<Rightarrow> pyval option" where
  \<comment> \<open>the metadata of a row: only a vector search provides a score\<close>
  "search_meta score n =
     (case score of
        None \<Rightarrow> None
      | Some s \<Rightarrow> if n = ''vectorSearchScore'' then Some (PFloat s) else None)"

text \<open>
  A pipeline runs stage by stage over rows of a document and its search score, if any.
  \<^verbatim>\<open>$vectorSearch\<close> reads the collection itself (it is only valid as the first
  stage) and returns at most \<^verbatim>\<open>limit\<close> of the ranked candidates.
\<close>

type_synonym row = "document \<times> real option"

fun run_stage :: "env \<Rightarrow> document list \<Rightarrow> row list \<Rightarrow> stage \<Rightarrow> row list" where
  "run_stage env docs rows (VectorSearch p) =
     map (\<lambda>c. (fst c, Some (snd c)))
       (take (vs_limit p)
          (vector_rank env (vs_index p) (vs_path p) (vs_queryVector p) (vs_numCandidates p) docs))"
| "run_stage env docs rows (Project p) =
     map (\<lambda>row. (project p (search_meta (snd row)) (fst row), snd row)) rows"

definition run_pipeline :: "env \<Rightarrow> document list \<Rightarrow> stage list \<Rightarrow> document list" where
  "run_pipeline env docs pipeline =
     map fst (foldl (run_stage env docs) (map (\<lambda>d. (d, None)) docs) pipeline)"

definition aggregate :: "env \<Rightarrow> collection \<Rightarrow> stage list \<Rightarrow> world \<Rightarrow> document list \<times> world" where
  "aggregate env coll pipeline w =
     (case coll of (client, db, name) \<Rightarrow>
        (run_pipeline env (store w db name) pipeline,
         emit (Aggregate client db name pipeline) w))"

definition matches :: "document \<Rightarrow> document \<Rightarrow> bool" where
  \<comment> \<open>an equality query: every queried field is present with the queried value\<close>
  "matches query d = list_all (\<lambda>kv. map_of d (fst kv) = Some (snd kv)) query"

definition find_one :: "collection \<Rightarrow> document \<Rightarrow> projection \<Rightarrow> world \<Rightarrow> document option \<times> world" where
  "find_one coll query p w =
     (case coll of (client, db, name) \<Rightarrow>
        (map_option (project p (\<lambda>n. None)) (find (matches query) (store w db name)),
         emit (FindOne client db name query p) w))"

section \<open>The functions of the script\<close>

definition is_client :: "event \<Rightarrow> bool" where
  "is_client e = (case e of MongoClient uri \<Rightarrow> True | _ \<Rightarrow> False)"

definition init_mongodb :: "env \<Rightarrow> world \<Rightarrow> (nat \<times> collection \<times> collection) \<times> world" where
  "init_mongodb env w =
     (let mongodb_client = length (filter is_client (trace w));
          w1 = emit (MongoClient (mongodb_uri env)) w;
          DB_NAME = ''ai_agents'';
          vs_collection = (mongodb_client, DB_NAME, ''chunked_docs'');
          full_collection = (mongodb_client, DB_NAME, ''full_docs'')
      in ((mongodb_client, vs_collection, full_collection), w1))"

definition generate_embedding :: "env \<Rightarrow> string \<Rightarrow> world \<Rightarrow> (py_error + real list) \<times> world" where
  "generate_embedding env text w =
     (let w1 = emit (VoyageEmbed (voyage_api_key env) text ''voyage-3-lite'' ''query'') w
      in (case voyage_embed env text ''voyage-3-lite'' ''query'' of
            [] \<Rightarrow> Inl IndexError
          | embedding # _ \<Rightarrow> Inr embedding,
          w1))"

definition search_pipeline :: "real list \<Rightarrow> stage list" where
  \<comment> \<open>the \<^verbatim>\<open>pipeline\<close> literal of \<^verbatim>\<open>get_information_for_question_answering\<close>\<close>
  "search_pipeline query_embedding =
     [VectorSearch \<lparr>vs_index = ''vector_index'', vs_path = ''embedding'',
                    vs_queryVector = query_embedding, vs_numCandidates = 150, vs_limit = 5\<rparr>,
      Project [(''_id'', Exclude), (''body'', Include), (''score'', Meta ''vectorSearchScore'')]]"

definition blank_line :: string where
  \<comment> \<open>the separator \<^verbatim>\<open>"\n\n"\<close>\<close>
  "blank_line = [CHR 0x0A, CHR 0x0A]"

definition get_information_for_question_answering ::
    "env \<Rightarrow> string \<Rightarrow> world \<Rightarrow> (py_error + string) \<times> world" where
  "get_information_for_question_answering env user_query w =
     (case generate_embedding env user_query w of
        (Inl e, w1) \<Rightarrow> (Inl e, w1)
      | (Inr query_embedding, w1) \<Rightarrow>
          (case init_mongodb env w1 of
             ((mongodb_client, vs_collection, full_collection), w2) \<Rightarrow>
               (case aggregate env vs_collection (search_pipeline query_embedding) w2 of
                  (results, w3) \<Rightarrow>
                    (str_join blank_line (map (\<lambda>doc. dict_get doc ''body'') results), w3))))"

definition get_page_content_for_summarization ::
    "env \<Rightarrow> string \<Rightarrow> world \<Rightarrow> (py_error + pyval) \<times> world" where
  "get_page_content_for_summarization env user_query w =
     (case init_mongodb env w of
        ((mongodb_client, vs_collection, full_collection), w1) \<Rightarrow>
          (let query = [(''title'', PStr user_query)];
               projection = [(''_id'', Exclude), (''body'', Include)]
           in (case find_one full_collection query projection w1 of
                 (document, w2) \<Rightarrow>
                   (if truthy document
                    then (case document of
                            Some d \<Rightarrow> dict_item d ''body''
                          | None \<Rightarrow> Inl TypeError)
                    else Inr (PStr ''Document not found''),
                    w2))))"

definition tool_names :: "string list" where
  \<comment> \<open>the \<^verbatim>\<open>name\<close> of each entry of \<^verbatim>\<open>tools\<close>: the decorated function's name\<close>
  "tool_names = [''get_information_for_question_answering'',
                 ''get_page_content_for_summarization'']"

definition system_text :: string where
  "system_text =
     ''You are a helpful AI assistant.'' @
     '' You are provided with tools to answer questions and summarize technical documentation related to MongoDB.'' @
     '' Think step-by-step and use these tools to get the information required to answer the user query.'' @
     '' Do not re-run tools unless absolutely necessary.'' @
     '' If you are not able to get enough information using the tools, reply with I DON'' @ [CHR 0x27] @ ''T KNOW.'' @
     '' You have access to the following tools: {tool_names}.''"

definition demo_request :: "env \<Rightarrow> chat_request" where
  \<comment> \<open>what \<^verbatim>\<open>llm_with_tools.invoke([...])\<close> of \<^verbatim>\<open>main\<close> sends\<close>
  "demo_request env =
     \<lparr>cr_model = ''gpt-4o'', cr_temperature = 0, cr_api_key = openai_api_key env,
      cr_tools = tool_names,
      cr_template = system_text,
      cr_placeholder = ''messages'',
      cr_partial = [(''tool_names'', join_strs '', '' tool_names)],
      cr_messages = [''What are some best practices for data backups in MongoDB?'']\<rparr>"

definition main :: "env \<Rightarrow> world \<Rightarrow> world" where
  "main env w =
     (case init_mongodb env w of
        ((mongodb_client, vs_collection, full_collection), w1) \<Rightarrow>
          (let request = demo_request env;
               w2 = emit (ChatInvoke request) w1;
               tool_call_check = chat_model env request;
               w3 = emit (Print (Text ''Tool call check:'')) w2;
               w4 = emit (Print (ToolCalls tool_call_check)) w3
           in w4))"

definition script :: "env \<Rightarrow> world \<Rightarrow> world" where
  \<comment> \<open>the module body: the definitions, then the one call \<^verbatim>\<open>main()\<close>\<close>
  "script env w = main env w"

subsection \<open>Which client a request goes through\<close>

fun used_client :: "event \<Rightarrow> nat option" where
  "used_client (Aggregate client db name pipeline) = Some client"
| "used_client (FindOne client db name query p) = Some client"
| "used_client _ = None"

definition clients_bounded :: "event list \<Rightarrow> bool" where
  \<comment> \<open>every request in the trace goes through a client that the trace has created\<close>
  "clients_bounded tr =
     list_all (\<lambda>e. case used_client e of
                      None \<Rightarrow> True
                    | Some c \<Rightarrow> c < length (filter is_client tr)) tr"

section \<open>A sample deployment\<close>

text \<open>
  A small concrete world on which the theorems below are exercised: three full documents
  (one without a body, one with an empty body), two chunks, an embedding endpoint that
  answers with one two-dimensional vector and a vector index that ranks the collection
  in stored order.
\<close>

definition sample_full_docs :: "document list" where
  "sample_full_docs =
     [[(''_id'', PInt 1), (''title'', PStr ''Backups''), (''body'', PStr ''Use mongodump regularly.'')],
      [(''_id'', PInt 2), (''title'', PStr ''Draft'')],
      [(''_id'', PInt 3), (''title'', PStr ''Empty''), (''body'', PStr [])]]"

definition sample_chunks :: "document list" where
  "sample_chunks =
     [[(''_id'', PInt 10), (''body'', PStr ''Take snapshots.''), (''embedding'', PVec [1, 0])],
      [(''_id'', PInt 11), (''body'', PStr ''Test restores.''), (''embedding'', PVec [0, 1])]]"

definition sample_store :: "document list \<Rightarrow> string \<Rightarrow> string \<Rightarrow> document list" where
  "sample_store chunks db name =
     (if db = ''ai_agents'' \<and> name = ''full_docs'' then sample_full_docs
      else if db = ''ai_agents'' \<and> name = ''chunked_docs'' then chunks
      else [])"

definition sample_world :: world where
  "sample_world = \<lparr>store = sample_store sample_chunks, trace = []\<rparr>"

definition broken_world :: world where
  \<comment> \<open>as \<open>sample_world\<close>, with a third chunk that has no body\<close>
  "broken_world =
     \<lparr>store = sample_store (sample_chunks @ [[(''_id'', PInt 12), (''embedding'', PVec [1, 1])]]),
      trace = []\<rparr>"

definition empty_world :: world where
  "empty_world = \<lparr>store = (\<lambda>db name. []), trace = []\<rparr>"

definition crowded_world :: world where
  \<comment> \<open>seven chunks, more than the search limit\<close>
  "crowded_world =
     \<lparr>store = sample_store
        [[(''_id'', PInt 21), (''body'', PStr ''one'')],
         [(''_id'', PInt 22), (''body'', PStr ''two'')],
         [(''_id'', PInt 23), (''body'', PStr ''three'')],
         [(''_id'', PInt 24), (''body'', PStr ''four'')],
         [(''_id'', PInt 25), (''body'', PStr ''five'')],
         [(''_id'', PInt 26), (''body'', PStr ''six'')],
         [(''_id'', PInt 27), (''body'', PStr ''seven'')]],
      trace = []\<rparr>"

definition later_world :: world where
  \<comment> \<open>\<open>sample_world\<close> after one call of the lookup tool\<close>
  "later_world =
     \<lparr>store = sample_store sample_chunks,
      trace = [MongoClient ''mongodb://localhost:27017'',
               FindOne 0 ''ai_agents'' ''full_docs'' [(''title'', PStr ''Backups'')]
                 [(''_id'', Exclude), (''body'', Include)]]\<rparr>"

definition sample_env :: env where
  "sample_env =
     \<lparr>mongodb_uri = ''mongodb://localhost:27017'',
      voyage_api_key = ''voyage-key'',
      openai_api_key = ''openai-key'',
      voyage_embed = (\<lambda>text model input_type. [[1, 0]]),
      vector_rank = (\<lambda>index path query_vector num_candidates docs.
                       map (\<lambda>d. (d, 1)) (take num_candidates docs)),
      chat_model = (\<lambda>request.
                      [\<lparr>tc_name = ''get_information_for_question_answering'',
                        tc_args = [(''user_query'', ''data backups'')]\<rparr>])\<rparr>"

section \<open>Properties of the helpers\<close>

lemma meta_fields_no_meta: "meta_fields p (\<lambda>n. None) = []"
proof (induction p)
  case Nil
  show ?case by simp
next
  case (Cons a p)
  obtain k s where a: "a = (k, s)" by (cases a)
  show ?case using Cons by (cases s) (simp_all add: a)
qed

lemma map_of_filter_key:
  "P k \<Longrightarrow> map_of (filter (\<lambda>kv. P (fst kv)) d) k = map_of d k"
  by (induction d) auto

lemma as_strs_map_PStr: "as_strs (map PStr ss) = Some ss"
  by (induction ss) simp_all

lemma as_strs_SomeD: "as_strs vs = Some ss \<Longrightarrow> vs = map PStr ss"
  by (induction vs arbitrary: ss rule: as_strs.induct) (auto split: option.splits)

lemma as_strs_None_iff: "as_strs vs = None \<longleftrightarrow> (\<exists>v\<in>set vs. \<forall>s. v \<noteq> PStr s)"
  by (induction vs rule: as_strs.induct) (auto split: option.splits)

section \<open>The semantic search tool\<close>

lemma keeps_lookup: "keeps [(''_id'', Exclude), (''body'', Include)] k \<longleftrightarrow> k = ''body''"
  by (simp add: keeps_def)

lemma keeps_search:
  "keeps [(''_id'', Exclude), (''body'', Include), (''score'', Meta ''vectorSearchScore'')] k
     \<longleftrightarrow> k = ''body''"
  by (simp add: keeps_def)

lemma run_search_pipeline:
  "run_pipeline env docs (search_pipeline qv) =
     map (\<lambda>c. filter (\<lambda>kv. fst kv = ''body'') (fst c) @ [(''score'', PFloat (snd c))])
       (take 5 (vector_rank env ''vector_index'' ''embedding'' qv 150 docs))"
  by (simp add: run_pipeline_def search_pipeline_def project_def keeps_search search_meta_def
      comp_def)

lemma get_information_value:
  assumes "fst (generate_embedding env q w) = Inr qv"
  shows "fst (get_information_for_question_answering env q w) =
           str_join blank_line (map (\<lambda>doc. dict_get doc ''body'')
             (run_pipeline env (store w ''ai_agents'' ''chunked_docs'') (search_pipeline qv)))"
  using assms
  by (simp add: get_information_for_question_answering_def generate_embedding_def
      init_mongodb_def aggregate_def emit_def Let_def split: list.splits)


lemma all_strs_map_PStr:
  "\<forall>v\<in>set vs. \<exists>s. v = PStr s \<Longrightarrow> \<exists>ss. vs = map PStr ss"
proof -
  assume "\<forall>v\<in>set vs. \<exists>s. v = PStr s"
  then have "as_strs vs \<noteq> None" by (simp add: as_strs_None_iff)
  then obtain ss where "as_strs vs = Some ss" by blast
  then show ?thesis using as_strs_SomeD by blast
qed

lemma str_join_map_PStr: "str_join sep (map PStr ss) = Inr (join_strs sep ss)"
  by (simp add: str_join_def as_strs_map_PStr)

lemma str_join_Inr_iff: "(\<exists>s. str_join sep vs = Inr s) \<longleftrightarrow> (\<forall>v\<in>set vs. \<exists>s. v = PStr s)"
proof
  assume "\<exists>s. str_join sep vs = Inr s"
  then have "as_strs vs \<noteq> None" by (auto simp: str_join_def split: option.splits)
  then show "\<forall>v\<in>set vs. \<exists>s. v = PStr s" by (simp add: as_strs_None_iff)
next
  assume "\<forall>v\<in>set vs. \<exists>s. v = PStr s"
  then obtain ss where "vs = map PStr ss" using all_strs_map_PStr by blast
  then show "\<exists>s. str_join sep vs = Inr s" by (simp add: str_join_map_PStr)
qed

lemma str_join_TypeError_iff:
  "str_join sep vs = Inl TypeError \<longleftrightarrow> (\<exists>v\<in>set vs. \<forall>s. v \<noteq> PStr s)"
  by (simp add: str_join_def as_strs_None_iff[symmetric] split: option.splits)

lemma dict_get_projected_body:
  "dict_get (filter (\<lambda>kv. fst kv = ''body'') d @ [(''score'', v)]) ''body'' = dict_get d ''body''"
proof -
  have "map_of (filter (\<lambda>kv. fst kv = ''body'') d) ''body'' = map_of d ''body''"
    using map_of_filter_key [of "\<lambda>k. k = ''body''" "''body''" d] by simp
  then show ?thesis by (simp add: dict_get_def map_add_def split: option.splits)
qed

lemma search_bodies:
  "map (\<lambda>doc. dict_get doc ''body'') (run_pipeline env docs (search_pipeline qv)) =
     map (\<lambda>c. dict_get (fst c) ''body'')
       (take 5 (vector_rank env ''vector_index'' ''embedding'' qv 150 docs))"
  by (simp add: run_search_pipeline comp_def dict_get_projected_body)

lemma length_search_results: "length (run_pipeline env docs (search_pipeline qv)) \<le> 5"
  by (simp add: run_search_pipeline)

lemma join_strs_concat:
  "join_strs sep ss =
     (case ss of [] \<Rightarrow> [] | s # rest \<Rightarrow> s @ concat (map (\<lambda>t. sep @ t) rest))"
  by (induction sep ss rule: join_strs.induct) simp_all

lemma length_separated:
  "length (concat (map (\<lambda>t. sep @ t) rest)) =
     sum_list (map length rest) + length sep * length rest"
  by (induction rest) simp_all

lemma embedding_of_response:
  "voyage_embed env q ''voyage-3-lite'' ''query'' = qv # others \<Longrightarrow>
   fst (generate_embedding env q w) = Inr qv"
  by (simp add: generate_embedding_def Let_def)

lemma string_bodies_exist:
  assumes "\<forall>c\<in>set cs. \<exists>s. map_of (fst c) k = Some (PStr s)"
  shows "\<exists>segs. map (\<lambda>c. map_of (fst c) k) cs = map (\<lambda>s. Some (PStr s)) segs"
  using assms
proof (induction cs)
  case Nil
  show ?case by simp
next
  case (Cons c cs)
  then obtain segs where "map (\<lambda>c. map_of (fst c) k) cs = map (\<lambda>s. Some (PStr s)) segs"
    by auto
  moreover from Cons.prems obtain s where "map_of (fst c) k = Some (PStr s)"
    by auto
  ultimately have "map (\<lambda>c. map_of (fst c) k) (c # cs) = map (\<lambda>s. Some (PStr s)) (s # segs)"
    by simp
  then show ?case by blast
qed

lemma dict_get_of_fields:
  assumes "map (\<lambda>c. map_of (fst c) k) cs = map (\<lambda>s. Some (PStr s)) segs"
  shows "map (\<lambda>c. dict_get (fst c) k) cs = map PStr segs"
proof -
  have "map (\<lambda>c. dict_get (fst c) k) cs =
          map (\<lambda>r. case r of None \<Rightarrow> PNone | Some v \<Rightarrow> v) (map (\<lambda>c. map_of (fst c) k) cs)"
    by (simp add: dict_get_def comp_def)
  also have "\<dots> = map PStr segs"
    by (simp add: assms comp_def)
  finally show ?thesis .
qed

lemma search_value_of_ranking:
  assumes "voyage_embed env q ''voyage-3-lite'' ''query'' = qv # others"
    and "map (\<lambda>c. map_of (fst c) ''body'')
           (take 5 (vector_rank env ''vector_index'' ''embedding'' qv 150
                      (store w ''ai_agents'' ''chunked_docs'')))
         = map (\<lambda>s. Some (PStr s)) segs"
  shows "fst (get_information_for_question_answering env q w) =
           Inr (case segs of
                  [] \<Rightarrow> []
                | s # rest \<Rightarrow> s @ concat (map (\<lambda>t. [CHR 0x0A, CHR 0x0A] @ t) rest))"
proof -
  have "fst (get_information_for_question_answering env q w) =
          str_join blank_line (map PStr segs)"
    using get_information_value [OF embedding_of_response [OF assms(1)], of w]
      dict_get_of_fields [OF assms(2)]
    by (simp add: search_bodies)
  then show ?thesis
    by (simp add: str_join_map_PStr join_strs_concat blank_line_def)
qed

text \<open>
  Claim C1. When the embedding endpoint has answered and each of the first five ranked
  candidates carries a string body, \<^verbatim>\<open>get_information_for_question_answering\<close>
  returns a string made of the bodies of those candidates, at most five of them, in
  ranking order: the first body, then, for each further body, two newline characters
  followed by that body. Exactly one blank line therefore stands between two adjacent
  bodies, and nothing precedes the first or follows the last.
\<close>

theorem search_returns_at_most_five_segments:
  assumes "voyage_embed env q ''voyage-3-lite'' ''query'' = qv # others"
    and "found = vector_rank env ''vector_index'' ''embedding'' qv 150
                   (store w ''ai_agents'' ''chunked_docs'')"
    and "\<forall>c\<in>set (take 5 found). \<exists>s. map_of (fst c) ''body'' = Some (PStr s)"
  shows "\<exists>segs. length segs \<le> 5
           \<and> length segs = min 5 (length found)
           \<and> map (\<lambda>c. map_of (fst c) ''body'') (take 5 found) = map (\<lambda>s. Some (PStr s)) segs
           \<and> fst (get_information_for_question_answering env q w)
               = Inr (case segs of
                        [] \<Rightarrow> []
                      | s # rest \<Rightarrow> s @ concat (map (\<lambda>t. [CHR 0x0A, CHR 0x0A] @ t) rest))"
proof -
  from string_bodies_exist [OF assms(3)] obtain segs
    where segs: "map (\<lambda>c. map_of (fst c) ''body'') (take 5 found) = map (\<lambda>s. Some (PStr s)) segs"
    by (rule exE)
  from segs have "length (take 5 found) = length segs"
    by (rule map_eq_imp_length_eq)
  then have len: "length segs = min 5 (length found)"
    by (simp add: min.commute)
  then have le: "length segs \<le> 5"
    by simp
  have val: "fst (get_information_for_question_answering env q w)
          = Inr (case segs of
                   [] \<Rightarrow> []
                 | s # rest \<Rightarrow> s @ concat (map (\<lambda>t. [CHR 0x0A, CHR 0x0A] @ t) rest))"
    by (rule search_value_of_ranking [OF assms(1) segs [unfolded assms(2)]])
  show ?thesis
    by (intro exI [of _ segs] conjI le len segs val)
qed

lemma sample_response:
  "voyage_embed sample_env q ''voyage-3-lite'' ''query'' = [1, 0] # []"
  by (simp add: sample_env_def)

lemma sample_embedding:
  "fst (generate_embedding sample_env q w) = Inr [1, 0]"
  by (simp add: generate_embedding_def sample_env_def)

lemma sample_search_results:
  "run_pipeline sample_env (store sample_world ''ai_agents'' ''chunked_docs'')
     (search_pipeline qv)
   = [[(''body'', PStr ''Take snapshots.''), (''score'', PFloat 1)],
      [(''body'', PStr ''Test restores.''), (''score'', PFloat 1)]]"
  by (simp add: run_search_pipeline sample_env_def sample_world_def sample_store_def
      sample_chunks_def)

lemma crowded_rank:
  "vector_rank sample_env index path qv 150 (store crowded_world ''ai_agents'' ''chunked_docs'')
     = [([(''_id'', PInt 21), (''body'', PStr ''one'')], 1),
        ([(''_id'', PInt 22), (''body'', PStr ''two'')], 1),
        ([(''_id'', PInt 23), (''body'', PStr ''three'')], 1),
        ([(''_id'', PInt 24), (''body'', PStr ''four'')], 1),
        ([(''_id'', PInt 25), (''body'', PStr ''five'')], 1),
        ([(''_id'', PInt 26), (''body'', PStr ''six'')], 1),
        ([(''_id'', PInt 27), (''body'', PStr ''seven'')], 1)]"
  by (simp add: sample_env_def crowded_world_def sample_store_def)

lemma some_str_injective:
  "map (\<lambda>s. Some (PStr s)) xs = map (\<lambda>s. Some (PStr s)) ys \<Longrightarrow> xs = ys"
  using map_injective [of "\<lambda>s. Some (PStr s)" xs ys] by (simp add: inj_def)

theorem search_returns_at_most_five_segments_witness:
  "fst (get_information_for_question_answering sample_env ''backups'' crowded_world)
     = Inr (''one'' @ [CHR 0x0A, CHR 0x0A] @ ''two'' @ [CHR 0x0A, CHR 0x0A] @ ''three''
              @ [CHR 0x0A, CHR 0x0A] @ ''four'' @ [CHR 0x0A, CHR 0x0A] @ ''five'')"
proof -
  have strings: "\<forall>c\<in>set (take 5 (vector_rank sample_env ''vector_index'' ''embedding'' [1, 0] 150
                     (store crowded_world ''ai_agents'' ''chunked_docs''))).
                   \<exists>s. map_of (fst c) ''body'' = Some (PStr s)"
    by (simp add: crowded_rank)
  obtain segs
    where fields: "map (\<lambda>c. map_of (fst c) ''body'')
                     (take 5 (vector_rank sample_env ''vector_index'' ''embedding'' [1, 0] 150
                        (store crowded_world ''ai_agents'' ''chunked_docs'')))
                   = map (\<lambda>s. Some (PStr s)) segs"
      and out: "fst (get_information_for_question_answering sample_env ''backups'' crowded_world)
                  = Inr (case segs of
                           [] \<Rightarrow> []
                         | s # rest \<Rightarrow> s @ concat (map (\<lambda>t. [CHR 0x0A, CHR 0x0A] @ t) rest))"
    using search_returns_at_most_five_segments [OF sample_response refl strings] by blast
  from fields
  have "map (\<lambda>s. Some (PStr s)) segs
          = map (\<lambda>s. Some (PStr s)) [''one'', ''two'', ''three'', ''four'', ''five'']"
    by (simp add: crowded_rank)
  then have "segs = [''one'', ''two'', ''three'', ''four'', ''five'']"
    by (rule some_str_injective)
  with out show ?thesis by simp
qed

text \<open>
  Claim C4. When the vector index finds no match, the search tool returns the empty
  string, not a sentinel. When it finds at most five matches (in particular fewer than
  five), each with a string body, the returned string consists of exactly those bodies,
  one per match and in ranking order, each after the first preceded by two newline
  characters: nothing is padded and nothing is dropped. Its length is the total length of
  the bodies plus two characters for each match after the first. With two matches it is
  the first body, a blank line, and the second body.
\<close>

theorem search_few_matches_not_padded:
  assumes "voyage_embed env q ''voyage-3-lite'' ''query'' = qv # others"
    and "found = vector_rank env ''vector_index'' ''embedding'' qv 150
                   (store w ''ai_agents'' ''chunked_docs'')"
    and "length found \<le> 5"
    and "\<forall>c\<in>set found. \<exists>s. map_of (fst c) ''body'' = Some (PStr s)"
  shows "(found = [] \<longrightarrow> fst (get_information_for_question_answering env q w) = Inr [])
       \<and> (\<exists>segs out.
             length segs = length found
             \<and> map (\<lambda>c. map_of (fst c) ''body'') found = map (\<lambda>s. Some (PStr s)) segs
             \<and> fst (get_information_for_question_answering env q w) = Inr out
             \<and> out = (case segs of
                        [] \<Rightarrow> []
                      | s # rest \<Rightarrow> s @ concat (map (\<lambda>t. [CHR 0x0A, CHR 0x0A] @ t) rest))
             \<and> length out = sum_list (map length segs) + 2 * (length found - 1))
       \<and> (\<forall>a b. map (\<lambda>c. map_of (fst c) ''body'') found = [Some (PStr a), Some (PStr b)] \<longrightarrow>
             fst (get_information_for_question_answering env q w)
               = Inr (a @ [CHR 0x0A, CHR 0x0A] @ b))"
proof -
  have all: "take 5 found = found"
    using assms(3) by simp
  have val: "fst (get_information_for_question_answering env q w)
               = Inr (case segs of
                        [] \<Rightarrow> []
                      | s # rest \<Rightarrow> s @ concat (map (\<lambda>t. [CHR 0x0A, CHR 0x0A] @ t) rest))"
    if fields: "map (\<lambda>c. map_of (fst c) ''body'') found = map (\<lambda>s. Some (PStr s)) segs" for segs
  proof -
    from fields
    have first: "map (\<lambda>c. map_of (fst c) ''body'') (take 5 found) = map (\<lambda>s. Some (PStr s)) segs"
      by (simp only: all)
    show ?thesis
      by (rule search_value_of_ranking [OF assms(1) first [unfolded assms(2)]])
  qed
  have zero: "found = [] \<longrightarrow> fst (get_information_for_question_answering env q w) = Inr []"
  proof
    assume "found = []"
    then have "map (\<lambda>c. map_of (fst c) ''body'') found = map (\<lambda>s. Some (PStr s)) []"
      by simp
    from val [OF this] show "fst (get_information_for_question_answering env q w) = Inr []"
      by simp
  qed
  have two: "\<forall>a b. map (\<lambda>c. map_of (fst c) ''body'') found = [Some (PStr a), Some (PStr b)] \<longrightarrow>
             fst (get_information_for_question_answering env q w)
               = Inr (a @ [CHR 0x0A, CHR 0x0A] @ b)"
  proof (intro allI impI)
    fix a b
    assume "map (\<lambda>c. map_of (fst c) ''body'') found = [Some (PStr a), Some (PStr b)]"
    then have "map (\<lambda>c. map_of (fst c) ''body'') found = map (\<lambda>s. Some (PStr s)) [a, b]"
      by simp
    from val [OF this] show "fst (get_information_for_question_answering env q w)
                 = Inr (a @ [CHR 0x0A, CHR 0x0A] @ b)"
      by simp
  qed
  from string_bodies_exist [OF assms(4)] obtain segs
    where segs: "map (\<lambda>c. map_of (fst c) ''body'') found = map (\<lambda>s. Some (PStr s)) segs"
    by (rule exE)
  from segs have len: "length segs = length found"
    by (rule map_eq_imp_length_eq [symmetric])
  define out where "out = (case segs of
                        [] \<Rightarrow> []
                      | s # rest \<Rightarrow> s @ concat (map (\<lambda>t. [CHR 0x0A, CHR 0x0A] @ t) rest))"
  have size: "length out = sum_list (map length segs) + 2 * (length found - 1)"
    unfolding out_def len [symmetric]
    by (cases segs) (simp_all add: length_separated)
  have ret: "fst (get_information_for_question_answering env q w) = Inr out"
    unfolding out_def using segs by (rule val)
  have shape: "out = (case segs of
                        [] \<Rightarrow> []
                      | s # rest \<Rightarrow> s @ concat (map (\<lambda>t. [CHR 0x0A, CHR 0x0A] @ t) rest))"
    by (rule out_def)
  have many: "\<exists>segs out.
             length segs = length found
             \<and> map (\<lambda>c. map_of (fst c) ''body'') found = map (\<lambda>s. Some (PStr s)) segs
             \<and> fst (get_information_for_question_answering env q w) = Inr out
             \<and> out = (case segs of
                        [] \<Rightarrow> []
                      | s # rest \<Rightarrow> s @ concat (map (\<lambda>t. [CHR 0x0A, CHR 0x0A] @ t) rest))
             \<and> length out = sum_list (map length segs) + 2 * (length found - 1)"
    by (intro exI [of _ segs] exI [of _ out] conjI len segs ret shape size)
  show ?thesis
    by (intro conjI zero many two)
qed

lemma sample_rank:
  "vector_rank sample_env index path qv 150 (store sample_world ''ai_agents'' ''chunked_docs'')
     = [([(''_id'', PInt 10), (''body'', PStr ''Take snapshots.''), (''embedding'', PVec [1, 0])], 1),
        ([(''_id'', PInt 11), (''body'', PStr ''Test restores.''), (''embedding'', PVec [0, 1])], 1)]"
  by (simp add: sample_env_def sample_world_def sample_store_def sample_chunks_def)

lemma empty_rank:
  "vector_rank sample_env index path qv n (store empty_world db name) = []"
  by (simp add: sample_env_def empty_world_def)

theorem search_few_matches_not_padded_witness:
  "fst (get_information_for_question_answering sample_env ''backups'' empty_world) = Inr []
   \<and> fst (get_information_for_question_answering sample_env ''backups'' sample_world)
       = Inr (''Take snapshots.'' @ [CHR 0x0A, CHR 0x0A] @ ''Test restores.'')"
proof
  show "fst (get_information_for_question_answering sample_env ''backups'' empty_world) = Inr []"
    using search_few_matches_not_padded [OF sample_response refl, of empty_world "''backups''"]
    by (simp add: empty_rank)
next
  show "fst (get_information_for_question_answering sample_env ''backups'' sample_world)
          = Inr (''Take snapshots.'' @ [CHR 0x0A, CHR 0x0A] @ ''Test restores.'')"
    using search_few_matches_not_padded [OF sample_response refl, of sample_world "''backups''"]
    by (simp add: sample_rank)
qed

text \<open>
  Claim C10. Once the embedding endpoint has answered, the search tool returns a string
  exactly when every search result carries a string body, and raises TypeError exactly
  when some result does not. A result without a body field makes
  \<^verbatim>\<open>doc.get("body")\<close> the value None, and the join raises.
\<close>

theorem search_fails_iff_body_not_string:
  assumes "fst (generate_embedding env q w) = Inr qv"
    and "results = run_pipeline env (store w ''ai_agents'' ''chunked_docs'') (search_pipeline qv)"
  shows "((\<exists>s. fst (get_information_for_question_answering env q w) = Inr s)
            \<longleftrightarrow> (\<forall>doc\<in>set results. \<exists>s. dict_get doc ''body'' = PStr s))
       \<and> (fst (get_information_for_question_answering env q w) = Inl TypeError
            \<longleftrightarrow> (\<exists>doc\<in>set results. \<forall>s. dict_get doc ''body'' \<noteq> PStr s))
       \<and> (\<forall>doc\<in>set results. ''body'' \<notin> fst ` set doc \<longrightarrow>
             dict_get doc ''body'' = PNone
             \<and> fst (get_information_for_question_answering env q w) = Inl TypeError)"
proof -
  have val: "fst (get_information_for_question_answering env q w)
               = str_join blank_line (map (\<lambda>doc. dict_get doc ''body'') results)"
    using get_information_value [OF assms(1)] by (simp add: assms(2))
  have ok: "(\<exists>s. fst (get_information_for_question_answering env q w) = Inr s)
            \<longleftrightarrow> (\<forall>doc\<in>set results. \<exists>s. dict_get doc ''body'' = PStr s)"
    by (simp add: val str_join_Inr_iff)
  have err: "fst (get_information_for_question_answering env q w) = Inl TypeError
            \<longleftrightarrow> (\<exists>doc\<in>set results. \<forall>s. dict_get doc ''body'' \<noteq> PStr s)"
    by (simp add: val str_join_TypeError_iff)
  have missing: "\<forall>doc\<in>set results. ''body'' \<notin> fst ` set doc \<longrightarrow>
             dict_get doc ''body'' = PNone
             \<and> fst (get_information_for_question_answering env q w) = Inl TypeError"
  proof (intro ballI impI)
    fix doc assume doc: "doc \<in> set results" and nb: "''body'' \<notin> fst ` set doc"
    from nb have "map_of doc ''body'' = None" by (simp add: map_of_eq_None_iff)
    then have none: "dict_get doc ''body'' = PNone" by (simp add: dict_get_def)
    with doc have "\<exists>doc\<in>set results. \<forall>s. dict_get doc ''body'' \<noteq> PStr s"
      by (intro bexI [where x = doc]) simp_all
    with err none show "dict_get doc ''body'' = PNone
             \<and> fst (get_information_for_question_answering env q w) = Inl TypeError"
      by simp
  qed
  from ok err missing show ?thesis by blast
qed

lemma broken_search_results:
  "run_pipeline sample_env (store broken_world ''ai_agents'' ''chunked_docs'')
     (search_pipeline qv)
   = [[(''body'', PStr ''Take snapshots.''), (''score'', PFloat 1)],
      [(''body'', PStr ''Test restores.''), (''score'', PFloat 1)],
      [(''score'', PFloat 1)]]"
  by (simp add: run_search_pipeline sample_env_def broken_world_def sample_store_def
      sample_chunks_def)

theorem search_fails_iff_body_not_string_witness:
  "(\<exists>s. fst (get_information_for_question_answering sample_env ''backups'' sample_world) = Inr s)
   \<and> fst (get_information_for_question_answering sample_env ''backups'' broken_world)
       = Inl TypeError"
proof
  show "\<exists>s. fst (get_information_for_question_answering sample_env ''backups'' sample_world) = Inr s"
    using search_fails_iff_body_not_string [OF sample_embedding [of "''backups''" sample_world] refl]
    by (simp add: sample_search_results dict_get_def)
next
  show "fst (get_information_for_question_answering sample_env ''backups'' broken_world)
          = Inl TypeError"
    using search_fails_iff_body_not_string [OF sample_embedding [of "''backups''" broken_world] refl]
    by (simp add: broken_search_results dict_get_def)
qed

lemma get_information_trace:
  assumes "fst (generate_embedding env q w) = Inr qv"
  shows "trace (snd (get_information_for_question_answering env q w)) =
           trace w @ [VoyageEmbed (voyage_api_key env) q ''voyage-3-lite'' ''query'',
                      MongoClient (mongodb_uri env),
                      Aggregate (length (filter is_client (trace w))) ''ai_agents''
                        ''chunked_docs'' (search_pipeline qv)]"
  using assms
  by (simp add: get_information_for_question_answering_def generate_embedding_def
      init_mongodb_def aggregate_def emit_def is_client_def Let_def split: list.splits)

lemma get_information_store:
  "store (snd (get_information_for_question_answering env q w)) = store w"
  by (simp add: get_information_for_question_answering_def generate_embedding_def
      init_mongodb_def aggregate_def emit_def Let_def split: list.splits)

lemma search_result_fields:
  assumes "doc \<in> set (run_pipeline env docs (search_pipeline qv))"
  shows "''_id'' \<notin> fst ` set doc \<and> ''score'' \<in> fst ` set doc
         \<and> fst ` set doc \<subseteq> {''body'', ''score''}"
  using assms by (auto simp: run_search_pipeline)

text \<open>
  Claim C5. Once the embedding endpoint has answered with the vector \<open>qv\<close>, the search
  tool makes exactly three outside calls: the embedding request, the creation of a
  database client, and one aggregation on the collection \<^verbatim>\<open>chunked_docs\<close> of the
  database \<^verbatim>\<open>ai_agents\<close>. The pipeline is a vector search on the path
  \<^verbatim>\<open>embedding\<close> with the query vector \<open>qv\<close>, 150 candidates and limit 5, followed
  by a projection that excludes \<^verbatim>\<open>_id\<close>, includes \<^verbatim>\<open>body\<close> and adds the
  similarity score. Every result therefore has a score, no identifier, and no field other
  than body and score.
\<close>

theorem search_submits_fixed_pipeline:
  assumes "fst (generate_embedding env q w) = Inr qv"
  shows "trace (snd (get_information_for_question_answering env q w)) =
           trace w @ [VoyageEmbed (voyage_api_key env) q ''voyage-3-lite'' ''query'',
                      MongoClient (mongodb_uri env),
                      Aggregate (length (filter is_client (trace w))) ''ai_agents''
                        ''chunked_docs''
                        [VectorSearch \<lparr>vs_index = ''vector_index'', vs_path = ''embedding'',
                                       vs_queryVector = qv, vs_numCandidates = 150,
                                       vs_limit = 5\<rparr>,
                         Project [(''_id'', Exclude), (''body'', Include),
                                  (''score'', Meta ''vectorSearchScore'')]]]
       \<and> (\<forall>doc\<in>set (run_pipeline env (store w ''ai_agents'' ''chunked_docs'')
                        (search_pipeline qv)).
             ''_id'' \<notin> fst ` set doc \<and> ''score'' \<in> fst ` set doc
             \<and> fst ` set doc \<subseteq> {''body'', ''score''})"
proof
  show "trace (snd (get_information_for_question_answering env q w)) =
           trace w @ [VoyageEmbed (voyage_api_key env) q ''voyage-3-lite'' ''query'',
                      MongoClient (mongodb_uri env),
                      Aggregate (length (filter is_client (trace w))) ''ai_agents''
                        ''chunked_docs''
                        [VectorSearch \<lparr>vs_index = ''vector_index'', vs_path = ''embedding'',
                                       vs_queryVector = qv, vs_numCandidates = 150,
                                       vs_limit = 5\<rparr>,
                         Project [(''_id'', Exclude), (''body'', Include),
                                  (''score'', Meta ''vectorSearchScore'')]]]"
    using get_information_trace [OF assms] by (simp add: search_pipeline_def)
next
  show "\<forall>doc\<in>set (run_pipeline env (store w ''ai_agents'' ''chunked_docs'')
                        (search_pipeline qv)).
             ''_id'' \<notin> fst ` set doc \<and> ''score'' \<in> fst ` set doc
             \<and> fst ` set doc \<subseteq> {''body'', ''score''}"
    using search_result_fields by blast
qed

theorem search_submits_fixed_pipeline_witness:
  "trace (snd (get_information_for_question_answering sample_env ''backups'' sample_world)) =
     [VoyageEmbed ''voyage-key'' ''backups'' ''voyage-3-lite'' ''query'',
      MongoClient ''mongodb://localhost:27017'',
      Aggregate 0 ''ai_agents'' ''chunked_docs''
        [VectorSearch \<lparr>vs_index = ''vector_index'', vs_path = ''embedding'',
                       vs_queryVector = [1, 0], vs_numCandidates = 150, vs_limit = 5\<rparr>,
         Project [(''_id'', Exclude), (''body'', Include),
                  (''score'', Meta ''vectorSearchScore'')]]]"
  using search_submits_fixed_pipeline [OF sample_embedding [of "''backups''" sample_world]]
  by (simp add: sample_env_def sample_world_def)

section \<open>The exact lookup tool\<close>

lemma filter_key_empty_iff:
  "filter (\<lambda>kv. fst kv = k) d = [] \<longleftrightarrow> map_of d k = None"
  by (induction d) auto

lemma project_lookup:
  "project [(''_id'', Exclude), (''body'', Include)] (\<lambda>n. None) d =
     filter (\<lambda>kv. fst kv = ''body'') d"
  by (simp add: project_def keeps_lookup)

lemma matches_title:
  "matches [(''title'', PStr t)] d \<longleftrightarrow> dict_get d ''title'' = PStr t"
  by (auto simp: matches_def dict_get_def split: option.splits)

lemma get_page_content_unfold:
  "fst (get_page_content_for_summarization env t w) =
     (case find (matches [(''title'', PStr t)]) (store w ''ai_agents'' ''full_docs'') of
        None \<Rightarrow> Inr (PStr ''Document not found'')
      | Some d \<Rightarrow>
          (if project [(''_id'', Exclude), (''body'', Include)] (\<lambda>n. None) d \<noteq> []
           then dict_item (project [(''_id'', Exclude), (''body'', Include)] (\<lambda>n. None) d) ''body''
           else Inr (PStr ''Document not found'')))"
  unfolding get_page_content_for_summarization_def init_mongodb_def find_one_def
    emit_def truthy_def Let_def
  by (cases "find (matches [(''title'', PStr t)]) (store w ''ai_agents'' ''full_docs'')") simp_all

lemma get_page_content_value:
  "fst (get_page_content_for_summarization env t w) =
     (case find (\<lambda>d. dict_get d ''title'' = PStr t) (store w ''ai_agents'' ''full_docs'') of
        None \<Rightarrow> Inr (PStr ''Document not found'')
      | Some d \<Rightarrow>
          (case map_of d ''body'' of
             None \<Rightarrow> Inr (PStr ''Document not found'')
           | Some b \<Rightarrow> Inr b))"
proof -
  have m: "matches [(''title'', PStr t)] = (\<lambda>d. dict_get d ''title'' = PStr t)"
    by (rule ext) (rule matches_title)
  have body: "map_of (filter (\<lambda>kv. fst kv = ''body'') d) ''body'' = map_of d ''body''"
    for d :: document
    using map_of_filter_key [of "\<lambda>k. k = ''body''" "''body''" d] by simp
  have branch: "(if filter (\<lambda>kv. fst kv = ''body'') d \<noteq> []
                 then dict_item (filter (\<lambda>kv. fst kv = ''body'') d) ''body''
                 else Inr (PStr ''Document not found''))
                = (case map_of d ''body'' of
                     None \<Rightarrow> Inr (PStr ''Document not found'')
                   | Some b \<Rightarrow> Inr b)" for d :: document
    by (cases "map_of d ''body''") (simp_all add: filter_key_empty_iff dict_item_def body)
  show ?thesis
    unfolding get_page_content_unfold m project_lookup branch ..
qed

lemma get_page_content_trace:
  "trace (snd (get_page_content_for_summarization env t w)) =
     trace w @ [MongoClient (mongodb_uri env),
                FindOne (length (filter is_client (trace w))) ''ai_agents'' ''full_docs''
                  [(''title'', PStr t)] [(''_id'', Exclude), (''body'', Include)]]"
  by (simp add: get_page_content_for_summarization_def init_mongodb_def find_one_def
      emit_def Let_def)

lemma get_page_content_store:
  "store (snd (get_page_content_for_summarization env t w)) = store w"
  by (simp add: get_page_content_for_summarization_def init_mongodb_def find_one_def
      emit_def Let_def)

lemma find_unique:
  assumes "d \<in> set ds" and "P d" and "\<forall>d'\<in>set ds. P d' \<longrightarrow> d' = d"
  shows "find P ds = Some d"
proof -
  from assms(1,2) have "find P ds \<noteq> None"
    by (auto simp: find_None_iff)
  then obtain e where e: "find P ds = Some e" by blast
  then have "P e" and "e \<in> set ds"
    by (auto simp: find_Some_iff)
  with assms(3) have "e = d" by blast
  with e show ?thesis by simp
qed

text \<open>
  Claim C2. When a stored full document is the only one with the title \<open>t\<close> and has a
  body, \<^verbatim>\<open>get_page_content_for_summarization\<close> applied to \<open>t\<close> returns exactly
  that stored body.
\<close>

theorem lookup_returns_stored_body:
  assumes "d \<in> set (store w ''ai_agents'' ''full_docs'')"
    and "dict_get d ''title'' = PStr t"
    and "\<forall>d'\<in>set (store w ''ai_agents'' ''full_docs''). dict_get d' ''title'' = PStr t \<longrightarrow> d' = d"
    and "dict_item d ''body'' = Inr b"
  shows "fst (get_page_content_for_summarization env t w) = Inr b"
proof -
  have "find (\<lambda>d. dict_get d ''title'' = PStr t) (store w ''ai_agents'' ''full_docs'') = Some d"
    using assms(1-3) by (rule find_unique)
  moreover from assms(4) have "map_of d ''body'' = Some b"
    by (simp add: dict_item_def split: option.splits)
  ultimately show ?thesis by (simp add: get_page_content_value)
qed

lemma sample_full_store: "store sample_world ''ai_agents'' ''full_docs'' = sample_full_docs"
  by (simp add: sample_world_def sample_store_def)

theorem lookup_returns_stored_body_witness:
  "fst (get_page_content_for_summarization sample_env ''Backups'' sample_world)
     = Inr (PStr ''Use mongodump regularly.'')"
  by (rule lookup_returns_stored_body
      [of "[(''_id'', PInt 1), (''title'', PStr ''Backups''),
            (''body'', PStr ''Use mongodump regularly.'')]"])
     (simp_all add: sample_full_store sample_full_docs_def dict_get_def dict_item_def)

text \<open>
  Claim C3. When no stored full document has the title \<open>t\<close>, the lookup tool returns
  the literal string \<^verbatim>\<open>Document not found\<close>.
\<close>

theorem lookup_absent_title_not_found:
  assumes "\<forall>d\<in>set (store w ''ai_agents'' ''full_docs''). dict_get d ''title'' \<noteq> PStr t"
  shows "fst (get_page_content_for_summarization env t w) = Inr (PStr ''Document not found'')"
proof -
  have "find (\<lambda>d. dict_get d ''title'' = PStr t) (store w ''ai_agents'' ''full_docs'') = None"
    using assms by (simp add: find_None_iff)
  then show ?thesis by (simp add: get_page_content_value)
qed

theorem lookup_absent_title_not_found_witness:
  "fst (get_page_content_for_summarization sample_env ''Unknown'' sample_world)
     = Inr (PStr ''Document not found'')"
  by (rule lookup_absent_title_not_found)
     (simp add: sample_full_store sample_full_docs_def dict_get_def)

text \<open>
  Claim C9. The branch of the lookup tool is decided by the truthiness of the projected
  document. If the first document with the title has no body field, its projection is
  the empty dict and the tool answers \<^verbatim>\<open>Document not found\<close> although a record
  matched; if its body is the empty string, the tool returns the empty string.
\<close>

theorem lookup_branches_on_projected_document:
  assumes "find (\<lambda>d. dict_get d ''title'' = PStr t) (store w ''ai_agents'' ''full_docs'') = Some d"
  shows "(''body'' \<notin> fst ` set d \<longrightarrow>
            project [(''_id'', Exclude), (''body'', Include)] (\<lambda>n. None) d = []
            \<and> fst (get_page_content_for_summarization env t w) = Inr (PStr ''Document not found''))
       \<and> (dict_item d ''body'' = Inr (PStr []) \<longrightarrow>
            fst (get_page_content_for_summarization env t w) = Inr (PStr []))"
proof (intro conjI impI)
  assume "''body'' \<notin> fst ` set d"
  then have none: "map_of d ''body'' = None" by (simp add: map_of_eq_None_iff)
  then show "project [(''_id'', Exclude), (''body'', Include)] (\<lambda>n. None) d = []"
    by (simp add: project_lookup filter_key_empty_iff)
  from none assms show "fst (get_page_content_for_summarization env t w)
                          = Inr (PStr ''Document not found'')"
    by (simp add: get_page_content_value)
next
  assume "dict_item d ''body'' = Inr (PStr [])"
  then have "map_of d ''body'' = Some (PStr [])"
    by (simp add: dict_item_def split: option.splits)
  with assms show "fst (get_page_content_for_summarization env t w) = Inr (PStr [])"
    by (simp add: get_page_content_value)
qed

theorem lookup_branches_on_projected_document_witness:
  "fst (get_page_content_for_summarization sample_env ''Draft'' sample_world)
     = Inr (PStr ''Document not found'')
   \<and> fst (get_page_content_for_summarization sample_env ''Empty'' sample_world)
       = Inr (PStr [])"
proof
  show "fst (get_page_content_for_summarization sample_env ''Draft'' sample_world)
          = Inr (PStr ''Document not found'')"
    using lookup_branches_on_projected_document
      [of "''Draft''" sample_world "[(''_id'', PInt 2), (''title'', PStr ''Draft'')]" sample_env]
    by (simp add: sample_full_store sample_full_docs_def dict_get_def)
next
  show "fst (get_page_content_for_summarization sample_env ''Empty'' sample_world)
          = Inr (PStr [])"
    using lookup_branches_on_projected_document
      [of "''Empty''" sample_world
          "[(''_id'', PInt 3), (''title'', PStr ''Empty''), (''body'', PStr [])]" sample_env]
    by (simp add: sample_full_store sample_full_docs_def dict_get_def dict_item_def)
qed

section \<open>Connections and writes\<close>

lemma init_mongodb_value:
  "fst (init_mongodb env w) =
     (length (filter is_client (trace w)),
      (length (filter is_client (trace w)), ''ai_agents'', ''chunked_docs''),
      (length (filter is_client (trace w)), ''ai_agents'', ''full_docs''))"
  by (simp add: init_mongodb_def Let_def)

lemma init_mongodb_trace:
  "trace (snd (init_mongodb env w)) = trace w @ [MongoClient (mongodb_uri env)]"
  by (simp add: init_mongodb_def emit_def Let_def)

lemma generate_embedding_ignores_trace:
  "fst (generate_embedding env q (w\<lparr>trace := tr\<rparr>)) = fst (generate_embedding env q w)"
  by (simp add: generate_embedding_def Let_def)

lemma get_information_ignores_trace:
  "fst (get_information_for_question_answering env q (w\<lparr>trace := tr\<rparr>)) =
   fst (get_information_for_question_answering env q w)"
  by (simp add: get_information_for_question_answering_def generate_embedding_def
      init_mongodb_def aggregate_def emit_def Let_def split: list.splits)

lemma get_page_content_ignores_trace:
  "fst (get_page_content_for_summarization env t (w\<lparr>trace := tr\<rparr>)) =
   fst (get_page_content_for_summarization env t w)"
  by (simp add: get_page_content_value)

lemma clients_bounded_fresh:
  assumes "clients_bounded tr"
  shows "\<forall>e\<in>set tr. used_client e \<noteq> Some (length (filter is_client tr))"
proof
  fix e assume "e \<in> set tr"
  with assms have "case used_client e of None \<Rightarrow> True
                   | Some c \<Rightarrow> c < length (filter is_client tr)"
    by (simp add: clients_bounded_def list_all_iff)
  then show "used_client e \<noteq> Some (length (filter is_client tr))"
    by (cases "used_client e") auto
qed

lemma clients_bounded_extend:
  assumes "clients_bounded tr"
    and "list_all (\<lambda>e. case used_client e of None \<Rightarrow> True
                        | Some c \<Rightarrow> c < length (filter is_client (tr @ es))) es"
  shows "clients_bounded (tr @ es)"
proof -
  have "case used_client e of None \<Rightarrow> True
        | Some c \<Rightarrow> c < length (filter is_client (tr @ es))" if "e \<in> set tr" for e
  proof -
    from assms(1) that have "case used_client e of None \<Rightarrow> True
                   | Some c \<Rightarrow> c < length (filter is_client tr)"
      by (simp add: clients_bounded_def list_all_iff)
    then show ?thesis by (cases "used_client e") auto
  qed
  with assms(2) show ?thesis
    by (auto simp: clients_bounded_def list_all_iff)
qed

text \<open>
  Claim C6. \<^verbatim>\<open>init_mongodb\<close> creates a new client and returns handles to the
  collections \<^verbatim>\<open>chunked_docs\<close> and \<^verbatim>\<open>full_docs\<close> of the database
  \<^verbatim>\<open>ai_agents\<close>. Each call of either tool creates one such client and sends its
  single database request through it (for the search tool, once the embedding endpoint
  has answered); no earlier request went through that client. Neither tool changes the
  stored documents, and what a tool returns does not depend on the calls made before.
\<close>

theorem tools_open_fresh_client_and_never_write:
  assumes "fst (generate_embedding env q w) = Inr qv"
    and "clients_bounded (trace w)"
    and "n = length (filter is_client (trace w))"
  shows "fst (init_mongodb env w) =
           (n, (n, ''ai_agents'', ''chunked_docs''), (n, ''ai_agents'', ''full_docs''))
       \<and> trace (snd (init_mongodb env w)) = trace w @ [MongoClient (mongodb_uri env)]
       \<and> trace (snd (get_information_for_question_answering env q w)) =
           trace w @ [VoyageEmbed (voyage_api_key env) q ''voyage-3-lite'' ''query'',
                      MongoClient (mongodb_uri env),
                      Aggregate n ''ai_agents'' ''chunked_docs'' (search_pipeline qv)]
       \<and> trace (snd (get_page_content_for_summarization env t w)) =
           trace w @ [MongoClient (mongodb_uri env),
                      FindOne n ''ai_agents'' ''full_docs'' [(''title'', PStr t)]
                        [(''_id'', Exclude), (''body'', Include)]]
       \<and> (\<forall>e\<in>set (trace w). used_client e \<noteq> Some n)
       \<and> clients_bounded (trace (snd (get_information_for_question_answering env q w)))
       \<and> clients_bounded (trace (snd (get_page_content_for_summarization env t w)))
       \<and> store (snd (get_information_for_question_answering env q w)) = store w
       \<and> store (snd (get_page_content_for_summarization env t w)) = store w
       \<and> fst (get_information_for_question_answering env q (w\<lparr>trace := tr\<rparr>)) =
           fst (get_information_for_question_answering env q w)
       \<and> fst (get_page_content_for_summarization env t (w\<lparr>trace := tr\<rparr>)) =
           fst (get_page_content_for_summarization env t w)"
proof -
  have a: "fst (init_mongodb env w) =
           (n, (n, ''ai_agents'', ''chunked_docs''), (n, ''ai_agents'', ''full_docs''))"
    by (simp add: init_mongodb_value assms(3))
  have b: "trace (snd (get_information_for_question_answering env q w)) =
           trace w @ [VoyageEmbed (voyage_api_key env) q ''voyage-3-lite'' ''query'',
                      MongoClient (mongodb_uri env),
                      Aggregate n ''ai_agents'' ''chunked_docs'' (search_pipeline qv)]"
    using get_information_trace [OF assms(1)] by (simp add: assms(3))
  have c: "trace (snd (get_page_content_for_summarization env t w)) =
           trace w @ [MongoClient (mongodb_uri env),
                      FindOne n ''ai_agents'' ''full_docs'' [(''title'', PStr t)]
                        [(''_id'', Exclude), (''body'', Include)]]"
    by (simp add: get_page_content_trace assms(3))
  have d: "\<forall>e\<in>set (trace w). used_client e \<noteq> Some n"
    using clients_bounded_fresh [OF assms(2)] by (simp add: assms(3))
  have e: "clients_bounded (trace (snd (get_information_for_question_answering env q w)))"
    unfolding b by (rule clients_bounded_extend [OF assms(2)]) (simp add: is_client_def assms(3))
  have f: "clients_bounded (trace (snd (get_page_content_for_summarization env t w)))"
    unfolding c by (rule clients_bounded_extend [OF assms(2)]) (simp add: is_client_def assms(3))
  from a b c d e f show ?thesis
    by (simp only: init_mongodb_trace get_information_store get_page_content_store
        get_information_ignores_trace get_page_content_ignores_trace simp_thms)
qed

theorem tools_open_fresh_client_and_never_write_witness:
  "trace (snd (get_information_for_question_answering sample_env ''backups'' later_world)) =
     trace later_world @ [VoyageEmbed ''voyage-key'' ''backups'' ''voyage-3-lite'' ''query'',
                          MongoClient ''mongodb://localhost:27017'',
                          Aggregate 1 ''ai_agents'' ''chunked_docs'' (search_pipeline [1, 0])]
   \<and> trace (snd (get_page_content_for_summarization sample_env ''Draft'' later_world)) =
       trace later_world @ [MongoClient ''mongodb://localhost:27017'',
                            FindOne 1 ''ai_agents'' ''full_docs'' [(''title'', PStr ''Draft'')]
                              [(''_id'', Exclude), (''body'', Include)]]
   \<and> map used_client (trace later_world) = [None, Some 0]
   \<and> store (snd (get_information_for_question_answering sample_env ''backups'' later_world))
       = store later_world"
proof -
  have bounded: "clients_bounded (trace later_world)"
    by (simp add: later_world_def clients_bounded_def is_client_def)
  have n: "(1::nat) = length (filter is_client (trace later_world))"
    by (simp add: later_world_def is_client_def)
  show ?thesis
    using tools_open_fresh_client_and_never_write
      [OF sample_embedding [of "''backups''" later_world] bounded n, of "''Draft''"]
    by (simp add: sample_env_def later_world_def)
qed

section \<open>The entry point\<close>

text \<open>
  Claim C7. Running the script creates one database client, sends one request to the chat
  model (model \<^verbatim>\<open>gpt-4o\<close>, temperature 0, both tools bound, the fixed question as
  the only message), prints the line \<^verbatim>\<open>Tool call check:\<close> and then the
  \<^verbatim>\<open>tool_calls\<close> of the response, and stops: no tool is executed, no second
  request is sent, and the store is unchanged.
\<close>

theorem script_is_one_tool_call_decision:
  "trace (script env w) =
     trace w @ [MongoClient (mongodb_uri env),
                ChatInvoke \<lparr>cr_model = ''gpt-4o'', cr_temperature = 0,
                            cr_api_key = openai_api_key env,
                            cr_tools = [''get_information_for_question_answering'',
                                        ''get_page_content_for_summarization''],
                            cr_template = system_text,
                            cr_placeholder = ''messages'',
                            cr_partial = [(''tool_names'',
                              ''get_information_for_question_answering, get_page_content_for_summarization'')],
                            cr_messages =
                              [''What are some best practices for data backups in MongoDB?'']\<rparr>,
                Print (Text ''Tool call check:''),
                Print (ToolCalls (chat_model env (demo_request env)))]
   \<and> store (script env w) = store w"
  by (simp add: script_def main_def init_mongodb_def emit_def demo_request_def tool_names_def
      Let_def)

theorem script_is_one_tool_call_decision_witness:
  "trace (script sample_env sample_world) =
     [MongoClient ''mongodb://localhost:27017'',
      ChatInvoke (demo_request sample_env),
      Print (Text ''Tool call check:''),
      Print (ToolCalls [\<lparr>tc_name = ''get_information_for_question_answering'',
                         tc_args = [(''user_query'', ''data backups'')]\<rparr>])]"
  using script_is_one_tool_call_decision [of sample_env sample_world]
  by (simp add: sample_env_def sample_world_def demo_request_def tool_names_def)


section \<open>The embedding client\<close>

text \<open>
  \<^verbatim>\<open>generate_embedding\<close> hands back the first vector of the endpoint's response
  unchanged, always asking for the model \<^verbatim>\<open>voyage-3-lite\<close> with input type
  \<^verbatim>\<open>query\<close>. The length of that vector is decided by the endpoint alone.
\<close>

lemma generate_embedding_forwards:
  "fst (generate_embedding env q w) =
     (case voyage_embed env q ''voyage-3-lite'' ''query'' of
        [] \<Rightarrow> Inl IndexError
      | embedding # rest \<Rightarrow> Inr embedding)"
  by (simp add: generate_embedding_def Let_def)

end
